theory Spec2Isabelle
  imports Main "HOL-Library.Word"
begin

section \<open>Hash.h\<close>

text \<open>
  The whole of \<^verbatim>\<open>src/Hash.h\<close> is one function template:
  \<^verbatim>\<open>
  template<typename T>
  size_t hashOf (const T &value)
  {
    return std::hash<T>()(value);
  }
  \<close>
  \<^verbatim>\<open>size_t\<close> is an unsigned machine integer whose width the platform fixes, so it is a
  word of any length \<open>'w\<close>. \<^verbatim>\<open>std::hash<T>\<close> belongs to the C++ standard library, not to the
  repository: the call operator of the default-constructed \<^verbatim>\<open>std::hash<T>()\<close> is the
  parameter \<open>std_hash\<close>.
\<close>

type_synonym 'w size_t = "'w word"

definition hashOf :: "('a \<Rightarrow> 'w::len size_t) \<Rightarrow> 'a \<Rightarrow> 'w size_t" where
  "hashOf std_hash v = std_hash v"

section \<open>Theorems\<close>

subsection \<open>hashOf\<close>

text \<open>
  C10. For every value \<open>v\<close> of a hashable type, \<open>hashOf v\<close> is exactly what
  \<^verbatim>\<open>std::hash<T>()\<close> answers for \<open>v\<close>; so two equal values receive equal hash codes.
\<close>

theorem hashOf_is_std_hash:
  "hashOf std_hash v = std_hash v \<and> (v = w \<longrightarrow> hashOf std_hash v = hashOf std_hash w)"
  by (simp add: hashOf_def)

theorem hashOf_is_std_hash_witness:
  "''abc'' = ''abc''
   \<and> hashOf (\<lambda>s. word_of_nat (length s) :: 64 word) ''abc'' = 3
   \<and> hashOf (\<lambda>s. word_of_nat (length s) :: 64 word) ''abc''
     = hashOf (\<lambda>s. word_of_nat (length s) :: 64 word) ''abc''"
  using hashOf_is_std_hash [of "\<lambda>s. word_of_nat (length s) :: 64 word" "''abc''" "''abc''"]
  by simp

end
